theory Spec2Isabelle
  imports Complex_Main "HOL-Library.Sublist"
begin

section \<open>Host values: errors, strings\<close>

text \<open>
  A thrown JavaScript error, with its \<open>name\<close> and \<open>message\<close>. \<open>throw new Error(m)\<close> is
  \<open>Error ''Error'' m\<close>; an error raised by the database driver carries the driver's name.
  Template strings render an error as \<open>name: message\<close>.
\<close>

datatype error = Error (err_name: string) (err_message: string)

definition error_text :: "error \<Rightarrow> string" where
  "error_text e = err_name e @ '': '' @ err_message e"

definition apostrophe :: string where
  "apostrophe = [CHR 0x27]"

text \<open>\<open>Array.prototype.join\<close> on strings.\<close>

fun join :: "string \<Rightarrow> string list \<Rightarrow> string" where
  "join sep [] = []"
| "join sep [x] = x"
| "join sep (x # y # ys) = x @ sep @ join sep (y # ys)"

text \<open>Decimal rendering of a non-negative integer (\<open>${rows.length}\<close>, \<open>$${index + 1}\<close>).\<close>

definition digit_char :: "nat \<Rightarrow> char" where
  "digit_char d = char_of (48 + d)"

fun string_of_nat :: "nat \<Rightarrow> string" where
  "string_of_nat n = (if n < 10 then [digit_char n] else string_of_nat (n div 10) @ [digit_char (n mod 10)])"

declare string_of_nat.simps [simp del]

text \<open>
  \<open>toUpperCase\<close> and \<open>toLowerCase\<close>, on the ASCII letters; every other character is kept.
\<close>

definition lower_letters :: string where
  "lower_letters = ''abcdefghijklmnopqrstuvwxyz''"

definition upper_letters :: string where
  "upper_letters = ''ABCDEFGHIJKLMNOPQRSTUVWXYZ''"

definition toUpperCase :: "string \<Rightarrow> string" where
  "toUpperCase s = map (\<lambda>c. case map_of (zip lower_letters upper_letters) c of Some u \<Rightarrow> u | None \<Rightarrow> c) s"

definition toLowerCase :: "string \<Rightarrow> string" where
  "toLowerCase s = map (\<lambda>c. case map_of (zip upper_letters lower_letters) c of Some l \<Rightarrow> l | None \<Rightarrow> c) s"

section \<open>Backends, pools and the registry\<close>

record DatabaseConfig =
  name :: string
  connectionString :: string
  description :: "string option"

record DatabasesConfig =
  databases :: "(string \<times> DatabaseConfig) list option"
  defaultDatabase :: string

text \<open>
  A \<open>pg.Pool\<close>: the number of clients checked out and not yet released, and the state of
  the database behind the pool. The database is the environment: its state type \<open>'s\<close> and
  its answers are parameters (see \<open>engine\<close> below).
\<close>

record 's pool =
  in_use :: nat
  backend :: 's

text \<open>
  The process-wide state: \<open>databasePools\<close>, \<open>databaseConfigs\<close> (two \<open>Map\<close>s keyed by
  backend id) and \<open>defaultDatabaseId\<close>.
\<close>

record 's server =
  databasePools :: "string \<rightharpoonup> 's pool"
  databaseConfigs :: "string \<rightharpoonup> DatabaseConfig"
  defaultDatabaseId :: string

text \<open>
  \<open>databaseId || defaultDatabaseId\<close>: the default is taken when the id is absent and also when
  it is the empty string, which is falsy.
\<close>

definition or_default :: "string option \<Rightarrow> string \<Rightarrow> string" where
  "or_default databaseId d = (case databaseId of None \<Rightarrow> d | Some i \<Rightarrow> if i = [] then d else i)"

definition getDatabasePool :: "'s server \<Rightarrow> string option \<Rightarrow> error + 's pool" where
  "getDatabasePool srv databaseId =
     (let dbId = or_default databaseId (defaultDatabaseId srv) in
      case databasePools srv dbId of
        None \<Rightarrow> Inl (Error ''Error'' (''Database '' @ apostrophe @ dbId @ apostrophe @ '' not found''))
      | Some pool \<Rightarrow> Inr pool)"

definition getDatabaseConfig :: "'s server \<Rightarrow> string option \<Rightarrow> error + DatabaseConfig" where
  "getDatabaseConfig srv databaseId =
     (let dbId = or_default databaseId (defaultDatabaseId srv) in
      case databaseConfigs srv dbId of
        None \<Rightarrow> Inl (Error ''Error'' (''Database configuration '' @ apostrophe @ dbId @ apostrophe @ '' not found''))
      | Some config \<Rightarrow> Inr config)"

subsection \<open>Construction of the registry\<close>

text \<open>
  \<open>configData.databases\<close> is the object \<open>JSON.parse\<close> built: its own properties, in order, over
  \<open>Object.prototype\<close>. Reading \<open>obj[k]\<close> finds an own property first and an inherited member
  of \<open>Object.prototype\<close> otherwise; a backend description and every inherited member is
  truthy, a missing property is \<open>undefined\<close>.
\<close>

definition object_prototype_keys :: "string list" where
  "object_prototype_keys =
     [''constructor'', ''toString'', ''toLocaleString'', ''valueOf'', ''hasOwnProperty'',
      ''isPrototypeOf'', ''propertyIsEnumerable'', ''__proto__'', ''__defineGetter__'',
      ''__defineSetter__'', ''__lookupGetter__'', ''__lookupSetter__'']"

definition property_truthy :: "(string \<times> 'a) list \<Rightarrow> string \<Rightarrow> bool" where
  "property_truthy obj k = (case map_of obj k of Some v \<Rightarrow> True | None \<Rightarrow> k \<in> set object_prototype_keys)"

text \<open>The outcome of start-up: \<open>process.exit(1)\<close> after the message, or the state built.\<close>

datatype 'a startup = Exit string | Started 'a

text \<open>
  The loop over \<open>Object.entries(configData.databases)\<close>. \<open>new pg.Pool\<close> opens nothing yet: the
  pool starts with no client checked out, in front of the database its connection string
  names (\<open>fresh\<close>, a parameter).
\<close>

fun register_all :: "(string \<Rightarrow> 's) \<Rightarrow> (string \<times> DatabaseConfig) list \<Rightarrow> 's server \<Rightarrow> 's server" where
  "register_all fresh [] srv = srv"
| "register_all fresh ((i, config) # rest) srv =
     register_all fresh rest
       (srv\<lparr>databaseConfigs := (databaseConfigs srv)(i \<mapsto> config),
            databasePools := (databasePools srv)(i \<mapsto> \<lparr>in_use = 0, backend = fresh (connectionString config)\<rparr>)\<rparr>)"

datatype startup_args = ConfigMode DatabasesConfig | SingleMode string

definition empty_server :: "string \<Rightarrow> 's server" where
  "empty_server d = \<lparr>databasePools = Map.empty, databaseConfigs = Map.empty, defaultDatabaseId = d\<rparr>"

fun initializeDatabases :: "(string \<Rightarrow> 's) \<Rightarrow> startup_args \<Rightarrow> 's server startup" where
  "initializeDatabases fresh (ConfigMode configData) =
     (case databases configData of
        None \<Rightarrow> Exit ''No databases configured in config file''
      | Some dbs \<Rightarrow>
          if length dbs = 0 then Exit ''No databases configured in config file''
          else if property_truthy dbs (defaultDatabase configData)
          then Started (register_all fresh dbs (empty_server (defaultDatabase configData)))
          else Exit (''Default database '' @ apostrophe @ defaultDatabase configData @ apostrophe
                      @ '' not found in configuration''))"
| "initializeDatabases fresh (SingleMode databaseUrl) =
     Started (register_all fresh
       [(''default'', \<lparr>name = ''Default Database'', connectionString = databaseUrl,
                       description = Some ''Single database configuration''\<rparr>)]
       (empty_server ''default''))"

section \<open>The database engine and the host, as parameters\<close>

text \<open>
  What the driver returns for a row of a statement the tools build at run time: the columns
  and their text.
\<close>

type_synonym row = "(string \<times> string) list"

text \<open>Rows of the catalogue statements of the health probes, one record per statement.\<close>

record index_row =
  ix_schemaname :: string
  ix_tablename :: string
  ix_indexname :: string
  ix_size :: string

record conn_stats =
  total_connections :: nat
  active_connections :: nat
  idle_connections :: nat
  idle_in_transaction :: nat

record txid_row =
  age :: int
  remaining_txids :: int

record vacuum_row =
  vc_schemaname :: string
  vc_tablename :: string
  n_dead_tup :: nat

record sequence_row =
  sq_schemaname :: string
  sq_sequencename :: string
  percent_used :: string

record replication_row =
  application_name :: string
  client_addr :: "string option"
  rp_state :: string
  send_lag_bytes :: int

record constraint_row =
  cn_schemaname :: string
  cn_tablename :: string
  constraintname :: string
  constrainttype :: string

text \<open>
  The engine behind a pool. \<open>connect\<close> is \<open>pool.connect()\<close>: it rejects with an error or
  hands out a client. \<open>query\<close> is \<open>client.query(text, values)\<close> for the statements built at
  run time; the other fields are \<open>client.query\<close> at the fixed catalogue statements of the
  probes, typed by the columns they select. Every call may change the state of the
  database and may fail.
\<close>

record 's engine =
  connect :: "'s \<Rightarrow> error option \<times> 's"
  query :: "string \<Rightarrow> string list \<Rightarrow> 's \<Rightarrow> (error + row list) \<times> 's"
  q_index_rate :: "'s \<Rightarrow> (error + real option list) \<times> 's"
  q_table_rate :: "'s \<Rightarrow> (error + real option list) \<times> 's"
  q_invalid_indexes :: "'s \<Rightarrow> (error + index_row list) \<times> 's"
  q_unused_indexes :: "'s \<Rightarrow> (error + index_row list) \<times> 's"
  q_conn_stats :: "'s \<Rightarrow> (error + conn_stats) \<times> 's"
  q_max_connections :: "'s \<Rightarrow> (error + nat) \<times> 's"
  q_txid_info :: "'s \<Rightarrow> (error + txid_row) \<times> 's"
  q_vacuum_needed :: "'s \<Rightarrow> (error + vacuum_row list) \<times> 's"
  q_sequences :: "'s \<Rightarrow> (error + sequence_row list) \<times> 's"
  q_replication :: "'s \<Rightarrow> (error + replication_row list) \<times> 's"
  q_constraints :: "'s \<Rightarrow> (error + constraint_row list) \<times> 's"

text \<open>
  What the host renders: numbers (\<open>toFixed\<close>, the conversion of a number in a template
  string, \<open>toLocaleString\<close>), \<open>JSON.stringify\<close>, and the clock. Numbers are the reals they
  denote; the rounding of doubles is left to these functions.
\<close>

datatype jsval = Undefined | Obj row | Arr "row list"

record host =
  toFixed :: "nat \<Rightarrow> real \<Rightarrow> string"
  numberToString :: "real \<Rightarrow> string"
  toLocaleString :: "int \<Rightarrow> string"
  stringify :: "jsval \<Rightarrow> string"
  nowISO :: string

record response =
  content :: string
  isError :: bool

definition dquote :: string where
  "dquote = [CHR 0x22]"

definition newline :: string where
  "newline = [CHR 0x0A]"

subsection \<open>Scoped acquisition\<close>

definition pool_connect :: "'s engine \<Rightarrow> 's pool \<Rightarrow> (error + unit) \<times> 's pool" where
  "pool_connect E pool =
     (case connect E (backend pool) of
        (Some e, s) \<Rightarrow> (Inl e, pool\<lparr>backend := s\<rparr>)
      | (None, s) \<Rightarrow> (Inr (), pool\<lparr>in_use := Suc (in_use pool), backend := s\<rparr>))"

definition client_release :: "'s pool \<Rightarrow> 's pool" where
  "client_release pool = pool\<lparr>in_use := in_use pool - 1\<rparr>"

text \<open>
  \<open>const client = await pool.connect(); try { body } finally { client.release(); }\<close>:
  the body talks to the database through the client and returns or throws.
\<close>

definition with_client :: "'s engine \<Rightarrow> ('s \<Rightarrow> (error + 'a) \<times> 's) \<Rightarrow> 's pool \<Rightarrow> (error + 'a) \<times> 's pool" where
  "with_client E body pool =
     (case pool_connect E pool of
        (Inl e, p1) \<Rightarrow> (Inl e, p1)
      | (Inr u, p1) \<Rightarrow>
          (case body (backend p1) of (r, s) \<Rightarrow> (r, client_release (p1\<lparr>backend := s\<rparr>))))"

text \<open>
  \<open>const pool = getDatabasePool(databaseId)\<close> followed by work on that pool: the pool is an
  object of the \<open>Map\<close>, so what the work does to it is seen under its key.
\<close>

definition with_pool :: "'s server \<Rightarrow> string option \<Rightarrow> ('s pool \<Rightarrow> (error + 'a) \<times> 's pool) \<Rightarrow> (error + 'a) \<times> 's server" where
  "with_pool srv databaseId work =
     (case getDatabasePool srv databaseId of
        Inl e \<Rightarrow> (Inl e, srv)
      | Inr pool \<Rightarrow>
          (case work pool of
             (r, pool') \<Rightarrow>
               (r, srv\<lparr>databasePools :=
                    (databasePools srv)(or_default databaseId (defaultDatabaseId srv) \<mapsto> pool')\<rparr>)))"

section \<open>The tools\<close>

subsection \<open>query\<close>

text \<open>
  The \<open>finally\<close> block of this tool is \<open>await client.query("ROLLBACK"); client.release();\<close>:
  when the rollback throws, the release is not reached and the error of the rollback
  replaces the pending result.
\<close>

definition query_transaction :: "'s engine \<Rightarrow> host \<Rightarrow> string \<Rightarrow> 's \<Rightarrow> (error + response) \<times> 's" where
  "query_transaction E H sql s0 =
     (case query E ''BEGIN TRANSACTION READ ONLY'' [] s0 of
        (Inl e, s1) \<Rightarrow> (Inl e, s1)
      | (Inr b, s1) \<Rightarrow>
          (case query E sql [] s1 of
             (Inl e, s2) \<Rightarrow> (Inl e, s2)
           | (Inr rows, s2) \<Rightarrow> (Inr \<lparr>content = stringify H (Arr rows), isError = False\<rparr>, s2)))"

definition query_on :: "'s engine \<Rightarrow> host \<Rightarrow> string \<Rightarrow> 's pool \<Rightarrow> (error + response) \<times> 's pool" where
  "query_on E H sql pool =
     (case pool_connect E pool of
        (Inl e, p1) \<Rightarrow> (Inl e, p1)
      | (Inr u, p1) \<Rightarrow>
          (case query_transaction E H sql (backend p1) of
             (r, s2) \<Rightarrow>
               (case query E ''ROLLBACK'' [] s2 of
                  (Inl e, s3) \<Rightarrow> (Inl e, p1\<lparr>backend := s3\<rparr>)
                | (Inr b, s3) \<Rightarrow> (r, client_release (p1\<lparr>backend := s3\<rparr>)))))"

definition query_tool :: "'s engine \<Rightarrow> host \<Rightarrow> string \<Rightarrow> string option \<Rightarrow> 's server \<Rightarrow> (error + response) \<times> 's server" where
  "query_tool E H sql databaseId srv = with_pool srv databaseId (query_on E H sql)"

subsection \<open>create_table, insert_entry, delete_table, update_entry, delete_entry\<close>

record column =
  col_name :: string
  col_type :: string

definition run_statement :: "'s engine \<Rightarrow> string \<Rightarrow> string list \<Rightarrow> (row list \<Rightarrow> string) \<Rightarrow> 's \<Rightarrow> (error + response) \<times> 's" where
  "run_statement E stmt params render s =
     (case query E stmt params s of
        (Inl e, s1) \<Rightarrow> (Inl e, s1)
      | (Inr rows, s1) \<Rightarrow> (Inr \<lparr>content = render rows, isError = False\<rparr>, s1))"

definition createTableQuery :: "string \<Rightarrow> column list \<Rightarrow> string" where
  "createTableQuery tableName columns =
     ''CREATE TABLE '' @ tableName @ '' ('' @ join '', '' (map (\<lambda>col. col_name col @ '' '' @ col_type col) columns) @ '')''"

definition create_table :: "'s engine \<Rightarrow> string \<Rightarrow> column list \<Rightarrow> string option \<Rightarrow> 's server \<Rightarrow> (error + response) \<times> 's server" where
  "create_table E tableName columns database srv =
     with_pool srv database (with_client E
       (run_statement E (createTableQuery tableName columns) []
          (\<lambda>rows. ''Table '' @ dquote @ tableName @ dquote @ '' created successfully with columns: ''
                   @ join '', '' (map (\<lambda>col. col_name col @ '' ('' @ col_type col @ '')'') columns))))"

definition placeholder :: "nat \<Rightarrow> string" where
  "placeholder n = ''$'' @ string_of_nat n"

definition insertQuery :: "string \<Rightarrow> (string \<times> string) list \<Rightarrow> string" where
  "insertQuery tableName vals =
     ''INSERT INTO '' @ tableName @ '' ('' @ join '', '' (map fst vals) @ '') VALUES (''
       @ join '', '' (map (\<lambda>index. placeholder (index + 1)) [0..<length vals]) @ '') RETURNING *''"

definition insert_entry :: "'s engine \<Rightarrow> host \<Rightarrow> string \<Rightarrow> (string \<times> string) list \<Rightarrow> string option \<Rightarrow> 's server \<Rightarrow> (error + response) \<times> 's server" where
  "insert_entry E H tableName vals database srv =
     with_pool srv database (with_client E
       (run_statement E (insertQuery tableName vals) (map snd vals)
          (\<lambda>rows. ''Inserted into table '' @ dquote @ tableName @ dquote @ '': ''
                   @ stringify H (case rows of [] \<Rightarrow> Undefined | r # rest \<Rightarrow> Obj r))))"

definition deleteTableQuery :: "string \<Rightarrow> string" where
  "deleteTableQuery tableName = ''DROP TABLE IF EXISTS '' @ tableName"

definition delete_table :: "'s engine \<Rightarrow> string \<Rightarrow> string option \<Rightarrow> 's server \<Rightarrow> (error + response) \<times> 's server" where
  "delete_table E tableName database srv =
     with_pool srv database (with_client E
       (run_statement E (deleteTableQuery tableName) []
          (\<lambda>rows. ''Table '' @ dquote @ tableName @ dquote @ '' deleted successfully'')))"

text \<open>
  \<open>Object.entries(obj).map(([key, _], index) => `${key} = $${offset + index + 1}`)\<close>
\<close>

definition equality_clauses :: "nat \<Rightarrow> (string \<times> string) list \<Rightarrow> string list" where
  "equality_clauses offset entries =
     map (\<lambda>(index, key). key @ '' = '' @ placeholder (offset + index + 1)) (enumerate 0 (map fst entries))"

definition updateQuery :: "string \<Rightarrow> (string \<times> string) list \<Rightarrow> (string \<times> string) list \<Rightarrow> string" where
  "updateQuery tableName vals conditions =
     ''UPDATE '' @ tableName @ '' SET '' @ join '', '' (equality_clauses 0 vals)
        @ '' WHERE '' @ join '' AND '' (equality_clauses (length vals) conditions) @ '' RETURNING *''"

definition update_entry :: "'s engine \<Rightarrow> host \<Rightarrow> string \<Rightarrow> (string \<times> string) list \<Rightarrow> (string \<times> string) list \<Rightarrow> string option \<Rightarrow> 's server \<Rightarrow> (error + response) \<times> 's server" where
  "update_entry E H tableName vals conditions database srv =
     with_pool srv database (with_client E
       (run_statement E (updateQuery tableName vals conditions) (map snd vals @ map snd conditions)
          (\<lambda>rows. ''Updated entry in table '' @ dquote @ tableName @ dquote @ '': '' @ stringify H (Arr rows))))"

definition deleteQuery :: "string \<Rightarrow> (string \<times> string) list \<Rightarrow> string" where
  "deleteQuery tableName conditions =
     ''DELETE FROM '' @ tableName @ '' WHERE '' @ join '' AND '' (equality_clauses 0 conditions) @ '' RETURNING *''"

definition delete_entry :: "'s engine \<Rightarrow> host \<Rightarrow> string \<Rightarrow> (string \<times> string) list \<Rightarrow> string option \<Rightarrow> 's server \<Rightarrow> (error + response) \<times> 's server" where
  "delete_entry E H tableName conditions database srv =
     with_pool srv database (with_client E
       (run_statement E (deleteQuery tableName conditions) (map snd conditions)
          (\<lambda>rows. ''Deleted entry from table '' @ dquote @ tableName @ dquote @ '': '' @ stringify H (Arr rows))))"

section \<open>Health probes\<close>

text \<open>The three marks of the findings, as the bytes of the source's string literals.\<close>

definition check_mark :: string where
  "check_mark = [CHR 0xC3, CHR 0xA2, CHR 0xC5, CHR 0x93, CHR 0xE2, CHR 0x80, CHR 0x9C]"

definition warning_mark :: string where
  "warning_mark = [CHR 0xC3, CHR 0xA2, CHR 0xC5, CHR 0xA1, CHR 0xC2, CHR 0xA0]"

definition critical_mark :: string where
  "critical_mark = [CHR 0xC3, CHR 0xB0, CHR 0xC5, CHR 0xB8, CHR 0xC5, CHR 0xA1, CHR 0xC2, CHR 0xA8]"

subsection \<open>Buffer cache\<close>

text \<open>
  The statement yields one column \<open>rate\<close>, \<open>NULL\<close> or a number that \<open>parseFloat\<close> reads.
  \<open>kind\<close> is \<open>Index\<close> or \<open>Table\<close>, \<open>none\<close> the message of the function without statistics.
\<close>

definition cache_hit_message :: "host \<Rightarrow> string \<Rightarrow> string \<Rightarrow> real \<Rightarrow> real option list \<Rightarrow> string" where
  "cache_hit_message H kind none threshold rows =
     (case rows of
        [] \<Rightarrow> none
      | r # rest \<Rightarrow>
          (case r of
             None \<Rightarrow> none
           | Some rate \<Rightarrow>
               (let percentage = toFixed H 2 (rate * 100) in
                if rate \<ge> threshold
                then kind @ '' cache hit rate: '' @ percentage @ ''% (Good - above ''
                       @ numberToString H (threshold * 100) @ ''% threshold)''
                else kind @ '' cache hit rate: '' @ percentage @ ''% (Poor - below ''
                       @ numberToString H (threshold * 100) @ ''% threshold)'')))"

definition index_rate_body :: "'s engine \<Rightarrow> host \<Rightarrow> real \<Rightarrow> 's \<Rightarrow> (error + string) \<times> 's" where
  "index_rate_body E H threshold s =
     (case q_index_rate E s of
        (Inl e, s1) \<Rightarrow> (Inl e, s1)
      | (Inr rows, s1) \<Rightarrow>
          (Inr (cache_hit_message H ''Index'' ''No index statistics available'' threshold rows), s1))"

definition table_rate_body :: "'s engine \<Rightarrow> host \<Rightarrow> real \<Rightarrow> 's \<Rightarrow> (error + string) \<times> 's" where
  "table_rate_body E H threshold s =
     (case q_table_rate E s of
        (Inl e, s1) \<Rightarrow> (Inl e, s1)
      | (Inr rows, s1) \<Rightarrow>
          (Inr (cache_hit_message H ''Table'' ''No table statistics available'' threshold rows), s1))"

definition calculateIndexCacheHitRate :: "'s engine \<Rightarrow> host \<Rightarrow> real \<Rightarrow> string option \<Rightarrow> 's server \<Rightarrow> (error + string) \<times> 's server" where
  "calculateIndexCacheHitRate E H threshold databaseId srv =
     with_pool srv databaseId (with_client E (index_rate_body E H threshold))"

definition calculateTableCacheHitRate :: "'s engine \<Rightarrow> host \<Rightarrow> real \<Rightarrow> string option \<Rightarrow> 's server \<Rightarrow> (error + string) \<times> 's server" where
  "calculateTableCacheHitRate E H threshold databaseId srv =
     with_pool srv databaseId (with_client E (table_rate_body E H threshold))"

text \<open>The tool: \<open>threshold ?? 0.95\<close>, then the two rates, the first failure thrown on.\<close>

definition buffer_health_check :: "'s engine \<Rightarrow> host \<Rightarrow> real option \<Rightarrow> string option \<Rightarrow> 's server \<Rightarrow> (error + response) \<times> 's server" where
  "buffer_health_check E H threshold_arg database srv =
     (let threshold = (case threshold_arg of None \<Rightarrow> 0.95 | Some t \<Rightarrow> t) in
      case calculateIndexCacheHitRate E H threshold database srv of
        (Inl e, srv1) \<Rightarrow> (Inl e, srv1)
      | (Inr indexHealth, srv1) \<Rightarrow>
          (case calculateTableCacheHitRate E H threshold database srv1 of
             (Inl e, srv2) \<Rightarrow> (Inl e, srv2)
           | (Inr tableHealth, srv2) \<Rightarrow>
               (Inr \<lparr>content = ''PostgreSQL Buffer Health Analysis:'' @ newline @ newline @ indexHealth
                                 @ newline @ tableHealth @ newline @ newline
                                 @ ''Analysis completed at: '' @ nowISO H,
                      isError = False\<rparr>, srv2)))"

subsection \<open>The probes that catch their own statement errors\<close>

text \<open>
  Each of these pushes findings on \<open>results\<close> inside \<open>try\<close>; its \<open>catch\<close> pushes one error
  line after what was pushed so far, and the function returns \<open>results\<close>. Only the pool
  lookup and \<open>pool.connect()\<close>, which stand before the \<open>try\<close>, can make it throw.
\<close>

definition findings :: "('s \<Rightarrow> string list \<times> 's) \<Rightarrow> 's \<Rightarrow> (error + string list) \<times> 's" where
  "findings body s = (case body s of (results, s1) \<Rightarrow> (Inr results, s1))"

definition index_line :: "index_row \<Rightarrow> string" where
  "index_line r = ''  - '' @ ix_schemaname r @ ''.'' @ ix_tablename r @ ''.'' @ ix_indexname r @ '' ('' @ ix_size r @ '')''"

definition invalid_index_lines :: "index_row list \<Rightarrow> string list" where
  "invalid_index_lines invalidIndexes =
     (if length invalidIndexes > 0
      then (''Invalid indexes found: '' @ string_of_nat (length invalidIndexes)) # map index_line invalidIndexes
      else [check_mark @ '' No invalid indexes found''])"

definition unused_index_lines :: "index_row list \<Rightarrow> string list" where
  "unused_index_lines unusedIndexes =
     (if length unusedIndexes > 0
      then (''Unused indexes found: '' @ string_of_nat (length unusedIndexes)) # map index_line unusedIndexes
      else [check_mark @ '' No significant unused indexes found''])"

definition index_body :: "'s engine \<Rightarrow> 's \<Rightarrow> string list \<times> 's" where
  "index_body E s =
     (case q_invalid_indexes E s of
        (Inl e, s1) \<Rightarrow> ([''Index health check error: '' @ error_text e], s1)
      | (Inr invalidIndexes, s1) \<Rightarrow>
          (case q_unused_indexes E s1 of
             (Inl e, s2) \<Rightarrow>
               (invalid_index_lines invalidIndexes @ [''Index health check error: '' @ error_text e], s2)
           | (Inr unusedIndexes, s2) \<Rightarrow>
               (invalid_index_lines invalidIndexes @ unused_index_lines unusedIndexes, s2)))"

definition checkIndexHealth :: "'s engine \<Rightarrow> string option \<Rightarrow> 's server \<Rightarrow> (error + string list) \<times> 's server" where
  "checkIndexHealth E databaseId srv = with_pool srv databaseId (with_client E (findings (index_body E)))"

text \<open>
  \<open>total_connections / maxConnections > 0.8\<close>; a division by zero is \<open>Infinity\<close> or \<open>NaN\<close>
  in the source, written out here.
\<close>

definition usage_above_80 :: "nat \<Rightarrow> nat \<Rightarrow> bool" where
  "usage_above_80 totalConnections maxConnections =
     (if maxConnections = 0 then totalConnections > 0
      else real totalConnections / real maxConnections > 0.8)"

definition connection_lines :: "host \<Rightarrow> conn_stats \<Rightarrow> nat \<Rightarrow> string list" where
  "connection_lines H currentConn maxConnections =
     [''Connections: '' @ string_of_nat (total_connections currentConn) @ ''/'' @ string_of_nat maxConnections
        @ '' ('' @ toFixed H 1 ((real (total_connections currentConn) / real maxConnections) * 100) @ ''%)'',
      ''  - Active: '' @ string_of_nat (active_connections currentConn),
      ''  - Idle: '' @ string_of_nat (idle_connections currentConn),
      ''  - Idle in transaction: '' @ string_of_nat (idle_in_transaction currentConn),
      (if usage_above_80 (total_connections currentConn) maxConnections
       then warning_mark @ '' Warning: Connection usage above 80%''
       else check_mark @ '' Connection usage healthy'')]"

definition connection_body :: "'s engine \<Rightarrow> host \<Rightarrow> 's \<Rightarrow> string list \<times> 's" where
  "connection_body E H s =
     (case q_conn_stats E s of
        (Inl e, s1) \<Rightarrow> ([''Connection health check error: '' @ error_text e], s1)
      | (Inr currentConn, s1) \<Rightarrow>
          (case q_max_connections E s1 of
             (Inl e, s2) \<Rightarrow> ([''Connection health check error: '' @ error_text e], s2)
           | (Inr maxConnections, s2) \<Rightarrow> (connection_lines H currentConn maxConnections, s2)))"

definition checkConnectionHealth :: "'s engine \<Rightarrow> host \<Rightarrow> string option \<Rightarrow> 's server \<Rightarrow> (error + string list) \<times> 's server" where
  "checkConnectionHealth E H databaseId srv =
     with_pool srv databaseId (with_client E (findings (connection_body E H)))"

definition txid_severity :: "int \<Rightarrow> string" where
  "txid_severity txidAge =
     (if txidAge > 1500000000 then critical_mark @ '' Critical: Transaction ID wraparound danger!''
      else if txidAge > 1000000000 then warning_mark @ '' Warning: Transaction ID getting high''
      else check_mark @ '' Transaction ID age healthy'')"

definition txid_lines :: "host \<Rightarrow> txid_row \<Rightarrow> string list" where
  "txid_lines H info =
     [''Transaction ID age: '' @ toLocaleString H (age info),
      ''Remaining before wraparound: '' @ toLocaleString H (remaining_txids info),
      txid_severity (age info)]"

definition vacuum_line :: "vacuum_row \<Rightarrow> string" where
  "vacuum_line r = ''  - '' @ vc_schemaname r @ ''.'' @ vc_tablename r @ '': '' @ string_of_nat (n_dead_tup r) @ '' dead tuples''"

definition dead_tuple_lines :: "vacuum_row list \<Rightarrow> string list" where
  "dead_tuple_lines vacuumNeeded =
     (if length vacuumNeeded > 0
      then (''Tables with high dead tuples: '' @ string_of_nat (length vacuumNeeded)) # map vacuum_line vacuumNeeded
      else [check_mark @ '' No tables with excessive dead tuples''])"

definition vacuum_body :: "'s engine \<Rightarrow> host \<Rightarrow> 's \<Rightarrow> string list \<times> 's" where
  "vacuum_body E H s =
     (case q_txid_info E s of
        (Inl e, s1) \<Rightarrow> ([''Vacuum health check error: '' @ error_text e], s1)
      | (Inr txidInfo, s1) \<Rightarrow>
          (case q_vacuum_needed E s1 of
             (Inl e, s2) \<Rightarrow> (txid_lines H txidInfo @ [''Vacuum health check error: '' @ error_text e], s2)
           | (Inr vacuumNeeded, s2) \<Rightarrow> (txid_lines H txidInfo @ dead_tuple_lines vacuumNeeded, s2)))"

definition checkVacuumHealth :: "'s engine \<Rightarrow> host \<Rightarrow> string option \<Rightarrow> 's server \<Rightarrow> (error + string list) \<times> 's server" where
  "checkVacuumHealth E H databaseId srv =
     with_pool srv databaseId (with_client E (findings (vacuum_body E H)))"

definition sequence_line :: "sequence_row \<Rightarrow> string" where
  "sequence_line r = ''  - '' @ sq_schemaname r @ ''.'' @ sq_sequencename r @ '': '' @ percent_used r @ ''% used''"

definition sequence_body :: "'s engine \<Rightarrow> 's \<Rightarrow> string list \<times> 's" where
  "sequence_body E s =
     (case q_sequences E s of
        (Inl e, s1) \<Rightarrow> ([''Sequence health check error: '' @ error_text e], s1)
      | (Inr seqCheck, s1) \<Rightarrow>
          (if length seqCheck > 0
           then (''Sequences approaching limits: '' @ string_of_nat (length seqCheck)) # map sequence_line seqCheck
           else [check_mark @ '' All sequences have adequate remaining capacity''], s1))"

definition checkSequenceHealth :: "'s engine \<Rightarrow> string option \<Rightarrow> 's server \<Rightarrow> (error + string list) \<times> 's server" where
  "checkSequenceHealth E databaseId srv = with_pool srv databaseId (with_client E (findings (sequence_body E)))"

definition replica_lines :: "replication_row \<Rightarrow> string list" where
  "replica_lines r =
     (''  - '' @ (if application_name r = [] then ''Unknown'' else application_name r)
        @ '' ('' @ (case client_addr r of None \<Rightarrow> ''null'' | Some a \<Rightarrow> a) @ ''): '' @ rp_state r)
     # (if send_lag_bytes r > 0 then [''    Send lag: '' @ string_of_nat (nat (send_lag_bytes r)) @ '' bytes''] else [])"

definition replication_body :: "'s engine \<Rightarrow> 's \<Rightarrow> string list \<times> 's" where
  "replication_body E s =
     (case q_replication E s of
        (Inl e, s1) \<Rightarrow> ([''Replication health check error: '' @ error_text e], s1)
      | (Inr replicationInfo, s1) \<Rightarrow>
          (if length replicationInfo = 0
           then [''No replication replicas detected (standalone or replica server)'']
           else (''Replication replicas: '' @ string_of_nat (length replicationInfo))
                  # concat (map replica_lines replicationInfo), s1))"

definition checkReplicationHealth :: "'s engine \<Rightarrow> string option \<Rightarrow> 's server \<Rightarrow> (error + string list) \<times> 's server" where
  "checkReplicationHealth E databaseId srv = with_pool srv databaseId (with_client E (findings (replication_body E)))"

definition constraint_line :: "constraint_row \<Rightarrow> string" where
  "constraint_line r =
     ''  - '' @ cn_schemaname r @ ''.'' @ cn_tablename r @ ''.'' @ constraintname r
       @ '' ('' @ (if constrainttype r = ''c'' then ''CHECK'' else ''FOREIGN KEY'') @ '')''"

definition constraint_body :: "'s engine \<Rightarrow> 's \<Rightarrow> string list \<times> 's" where
  "constraint_body E s =
     (case q_constraints E s of
        (Inl e, s1) \<Rightarrow> ([''Constraint health check error: '' @ error_text e], s1)
      | (Inr invalidConstraints, s1) \<Rightarrow>
          (if length invalidConstraints > 0
           then (''Invalid constraints found: '' @ string_of_nat (length invalidConstraints))
                  # map constraint_line invalidConstraints
           else [check_mark @ '' All constraints are valid''], s1))"

definition checkConstraintHealth :: "'s engine \<Rightarrow> string option \<Rightarrow> 's server \<Rightarrow> (error + string list) \<times> 's server" where
  "checkConstraintHealth E databaseId srv = with_pool srv databaseId (with_client E (findings (constraint_body E)))"

section \<open>Health report\<close>

definition all_health_types :: "string list" where
  "all_health_types = [''index'', ''connection'', ''vacuum'', ''sequence'', ''replication'', ''buffer'', ''constraint'']"

definition normalizedTypes :: "string list \<Rightarrow> string list" where
  "normalizedTypes healthTypes = (if ''all'' \<in> set healthTypes then all_health_types else healthTypes)"

text \<open>The \<open>switch\<close> on \<open>healthType.toLowerCase()\<close>: what the \<open>try\<close> block of one turn computes.\<close>

definition run_probe :: "'s engine \<Rightarrow> host \<Rightarrow> string option \<Rightarrow> string \<Rightarrow> 's server \<Rightarrow> (error + string list) \<times> 's server" where
  "run_probe E H databaseId healthType srv =
     (let t = toLowerCase healthType in
      if t = ''index'' then checkIndexHealth E databaseId srv
      else if t = ''connection'' then checkConnectionHealth E H databaseId srv
      else if t = ''vacuum'' then checkVacuumHealth E H databaseId srv
      else if t = ''sequence'' then checkSequenceHealth E databaseId srv
      else if t = ''replication'' then checkReplicationHealth E databaseId srv
      else if t = ''buffer'' then
        (case calculateIndexCacheHitRate E H 0.95 databaseId srv of
           (Inl e, srv1) \<Rightarrow> (Inl e, srv1)
         | (Inr indexHealth, srv1) \<Rightarrow>
             (case calculateTableCacheHitRate E H 0.95 databaseId srv1 of
                (Inl e, srv2) \<Rightarrow> (Inl e, srv2)
              | (Inr tableHealth, srv2) \<Rightarrow> (Inr [indexHealth, tableHealth], srv2)))
      else if t = ''constraint'' then checkConstraintHealth E databaseId srv
      else (Inr [''Unknown health check type: '' @ healthType], srv))"

definition section_header :: "string \<Rightarrow> string" where
  "section_header healthType = ''--- '' @ toUpperCase healthType @ '' HEALTH ---''"

definition error_line :: "string \<Rightarrow> error \<Rightarrow> string" where
  "error_line healthType e = ''Error running '' @ healthType @ '' health check: '' @ error_text e"

text \<open>One turn of the loop: the lines it pushes on \<open>allResults\<close>, and the state it leaves.\<close>

definition health_section :: "'s engine \<Rightarrow> host \<Rightarrow> string option \<Rightarrow> string \<Rightarrow> 's server \<Rightarrow> string list \<times> 's server" where
  "health_section E H databaseId healthType srv =
     (case run_probe E H databaseId healthType srv of
        (Inr healthResults, srv1) \<Rightarrow> (section_header healthType # healthResults @ [[]], srv1)
      | (Inl e, srv1) \<Rightarrow> ([section_header healthType, error_line healthType e, []], srv1))"

fun health_loop :: "'s engine \<Rightarrow> host \<Rightarrow> string option \<Rightarrow> string list \<Rightarrow> string list \<times> 's server \<Rightarrow> string list \<times> 's server" where
  "health_loop E H databaseId [] (allResults, srv) = (allResults, srv)"
| "health_loop E H databaseId (healthType # rest) (allResults, srv) =
     (case health_section E H databaseId healthType srv of
        (pushed, srv1) \<Rightarrow> health_loop E H databaseId rest (allResults @ pushed, srv1))"

definition report_head :: "host \<Rightarrow> DatabaseConfig \<Rightarrow> string \<Rightarrow> string list" where
  "report_head H dbConfig dbId =
     [''=== PostgreSQL Database Health Report ==='',
      ''Database: '' @ name dbConfig @ '' ('' @ dbId @ '')'',
      ''Generated at: '' @ nowISO H,
      []]"

text \<open>\<open>allResults\<close> as it stands at the \<open>return\<close>, before the lines are joined.\<close>

definition health_report_lines :: "'s engine \<Rightarrow> host \<Rightarrow> string list \<Rightarrow> string option \<Rightarrow> 's server \<Rightarrow> (error + string list) \<times> 's server" where
  "health_report_lines E H healthTypes databaseId srv =
     (case getDatabaseConfig srv databaseId of
        Inl e \<Rightarrow> (Inl e, srv)
      | Inr dbConfig \<Rightarrow>
          (case health_loop E H databaseId (normalizedTypes healthTypes)
                  (report_head H dbConfig (or_default databaseId (defaultDatabaseId srv)), srv) of
             (allResults, srv1) \<Rightarrow> (Inr allResults, srv1)))"

definition performDatabaseHealthCheck :: "'s engine \<Rightarrow> host \<Rightarrow> string list \<Rightarrow> string option \<Rightarrow> 's server \<Rightarrow> (error + string) \<times> 's server" where
  "performDatabaseHealthCheck E H healthTypes databaseId srv =
     (case health_report_lines E H healthTypes databaseId srv of
        (Inl e, srv1) \<Rightarrow> (Inl e, srv1)
      | (Inr allResults, srv1) \<Rightarrow> (Inr (join newline allResults), srv1))"

text \<open>The tool: \<open>health_types ?? ["all"]\<close>.\<close>

definition database_health_check :: "'s engine \<Rightarrow> host \<Rightarrow> string list option \<Rightarrow> string option \<Rightarrow> 's server \<Rightarrow> (error + response) \<times> 's server" where
  "database_health_check E H health_types database srv =
     (let healthTypes = (case health_types of None \<Rightarrow> [''all''] | Some ts \<Rightarrow> ts) in
      case performDatabaseHealthCheck E H healthTypes database srv of
        (Inl e, srv1) \<Rightarrow> (Inl e, srv1)
      | (Inr healthReport, srv1) \<Rightarrow> (Inr \<lparr>content = healthReport, isError = False\<rparr>, srv1))"

section \<open>The catalogue statements of the probes\<close>

text \<open>
  The statements the vacuum and buffer probes send are fixed SQL text of the source. What
  they compute is written here over the relation they read, restricted to the columns they
  select.

  \<open>SELECT age(datfrozenxid) as age, 2^31 - age(datfrozenxid) as remaining_txids\<close>
\<close>

definition txid_info_sql :: "int \<Rightarrow> txid_row" where
  "txid_info_sql frozen_age = \<lparr>age = frozen_age, remaining_txids = 2 ^ 31 - frozen_age\<rparr>"

text \<open>\<open>WHERE n_dead_tup > 1000 ORDER BY n_dead_tup DESC LIMIT 5\<close>\<close>

definition vacuum_needed_sql :: "vacuum_row list \<Rightarrow> vacuum_row list" where
  "vacuum_needed_sql user_tables =
     take 5 (rev (sort_key n_dead_tup (filter (\<lambda>r. n_dead_tup r > 1000) user_tables)))"

text \<open>
  \<open>SELECT sum(hit) / nullif(sum(hit + read), 0) AS rate\<close> over rows \<open>(hit, read)\<close>: a sum
  over no row is \<open>NULL\<close>, \<open>nullif\<close> turns a zero sum into \<open>NULL\<close>, and a quotient with a
  \<open>NULL\<close> operand is \<open>NULL\<close>. The statement always yields one row.
\<close>

definition rate_sql :: "(nat \<times> nat) list \<Rightarrow> real option list" where
  "rate_sql io =
     (if io = [] then [None]
      else if sum_list (map (\<lambda>(hit, rd). hit + rd) io) = 0 then [None]
      else [Some (real (sum_list (map fst io)) / real (sum_list (map (\<lambda>(hit, rd). hit + rd) io)))])"

section \<open>A reference session\<close>

text \<open>
  A small database session to run the tools against: one table \<open>t\<close> of which only the
  number of rows matters, the transaction status of the session, and the statistics the
  vacuum and buffer probes read. It follows PostgreSQL on the statements it knows: a text
  sent without parameters is a sequence of statements separated by semicolons, run in
  order; \<open>--\<close> starts a comment that runs to the end of the line; a writing statement is
  refused inside a read-only transaction; outside a transaction block a statement commits
  by itself. Every other statement is a syntax error here.
\<close>

datatype tx_status = NoTx | ReadOnlyTx | ReadWriteTx

record session =
  reachable :: bool
  alive :: bool
  tx :: tx_status
  committed :: nat
  visible :: nat
  frozen_age :: int
  user_tables :: "vacuum_row list"
  index_io :: "(nat \<times> nat) list"
  table_io :: "(nat \<times> nat) list"

fun split_on :: "char \<Rightarrow> string \<Rightarrow> string list" where
  "split_on c [] = [[]]"
| "split_on c (x # xs) =
     (case split_on c xs of
        [] \<Rightarrow> [[x]]
      | w # ws \<Rightarrow> if x = c then [] # w # ws else (x # w) # ws)"

fun strip_line_comment :: "string \<Rightarrow> string" where
  "strip_line_comment [] = []"
| "strip_line_comment [c] = [c]"
| "strip_line_comment (c # d # cs) =
     (if c = CHR ''-'' \<and> d = CHR ''-'' then [] else c # strip_line_comment (d # cs))"

definition sql_uncomment :: "string \<Rightarrow> string" where
  "sql_uncomment txt = join '' '' (map strip_line_comment (split_on (CHR 0x0A) txt))"

definition trim :: "string \<Rightarrow> string" where
  "trim s = rev (dropWhile (\<lambda>c. c = CHR '' '') (rev (dropWhile (\<lambda>c. c = CHR '' '') s)))"

definition statements :: "string \<Rightarrow> string list" where
  "statements txt = filter (\<lambda>st. st \<noteq> []) (map trim (split_on (CHR '';'') (sql_uncomment txt)))"

definition read_only_refusal :: "string \<Rightarrow> error" where
  "read_only_refusal verb = Error ''error'' (''cannot execute '' @ verb @ '' in a read-only transaction'')"

definition write_rows :: "string \<Rightarrow> nat \<Rightarrow> session \<Rightarrow> (error + row list) \<times> session" where
  "write_rows verb n s =
     (case tx s of
        ReadOnlyTx \<Rightarrow> (Inl (read_only_refusal verb), s)
      | ReadWriteTx \<Rightarrow> (Inr [], s\<lparr>visible := n\<rparr>)
      | NoTx \<Rightarrow> (Inr [], s\<lparr>committed := n, visible := n\<rparr>))"

definition exec_statement :: "string \<Rightarrow> session \<Rightarrow> (error + row list) \<times> session" where
  "exec_statement st s =
     (if st = ''BEGIN TRANSACTION READ ONLY''
      then (Inr [], if tx s = NoTx then s\<lparr>tx := ReadOnlyTx, visible := committed s\<rparr> else s)
      else if st = ''COMMIT''
      then (Inr [], if tx s = NoTx then s else s\<lparr>tx := NoTx, committed := visible s\<rparr>)
      else if st = ''ROLLBACK''
      then (Inr [], s\<lparr>tx := NoTx, visible := committed s\<rparr>)
      else if st = ''INSERT INTO t VALUES (1)''
      then write_rows ''INSERT'' (Suc (visible s)) s
      else if st = ''DELETE FROM t''
      then write_rows ''DELETE'' 0 s
      else if st = ''SELECT count(*) FROM t''
      then (Inr [[(''count'', string_of_nat (visible s))]], s)
      else if st = ''SELECT pg_terminate_backend(pg_backend_pid())''
      then (Inl (Error ''error'' ''terminating connection due to administrator command''), s\<lparr>alive := False\<rparr>)
      else (Inl (Error ''error'' (''syntax error at or near '' @ st)), s))"

fun exec_script :: "string list \<Rightarrow> session \<Rightarrow> (error + row list) \<times> session" where
  "exec_script [] s = (Inr [], s)"
| "exec_script [st] s = exec_statement st s"
| "exec_script (st # st' # rest) s =
     (case exec_statement st s of
        (Inl e, s1) \<Rightarrow> (Inl e, s1)
      | (Inr rows, s1) \<Rightarrow> exec_script (st' # rest) s1)"

definition connection_lost :: error where
  "connection_lost = Error ''Error'' ''Client has encountered a connection error and is not queryable''"

definition answer :: "'a \<Rightarrow> session \<Rightarrow> (error + 'a) \<times> session" where
  "answer rows s = (if alive s then (Inr rows, s) else (Inl connection_lost, s))"

definition reference_engine :: "session engine" where
  "reference_engine =
     \<lparr>connect = (\<lambda>s. if reachable s then (None, s)
                      else (Some (Error ''Error'' ''connect ECONNREFUSED''), s)),
      query = (\<lambda>txt params s. if alive s then exec_script (statements txt) s
                               else (Inl connection_lost, s)),
      q_index_rate = (\<lambda>s. answer (rate_sql (index_io s)) s),
      q_table_rate = (\<lambda>s. answer (rate_sql (table_io s)) s),
      q_invalid_indexes = answer [],
      q_unused_indexes = answer [],
      q_conn_stats = answer \<lparr>total_connections = 1, active_connections = 1,
                              idle_connections = 0, idle_in_transaction = 0\<rparr>,
      q_max_connections = answer 100,
      q_txid_info = (\<lambda>s. answer (txid_info_sql (frozen_age s)) s),
      q_vacuum_needed = (\<lambda>s. answer (vacuum_needed_sql (user_tables s)) s),
      q_sequences = answer [],
      q_replication = answer [],
      q_constraints = answer []\<rparr>"

text \<open>A host for evaluation: it prints every number as \<open>#\<close> and every value as \<open>{}\<close>.\<close>

definition sample_host :: host where
  "sample_host =
     \<lparr>toFixed = (\<lambda>d x. ''#''), numberToString = (\<lambda>x. ''#''), toLocaleString = (\<lambda>i. ''#''),
      stringify = (\<lambda>v. ''{}''), nowISO = ''2025-01-01T00:00:00.000Z''\<rparr>"

definition sample_session :: session where
  "sample_session =
     \<lparr>reachable = True, alive = True, tx = NoTx, committed = 3, visible = 3,
      frozen_age = 1500000000,
      user_tables = [\<lparr>vc_schemaname = ''public'', vc_tablename = ''a'', n_dead_tup = 5000\<rparr>,
                     \<lparr>vc_schemaname = ''public'', vc_tablename = ''b'', n_dead_tup = 10\<rparr>],
      index_io = [(99, 1)],
      table_io = []\<rparr>"

definition sample_config :: DatabaseConfig where
  "sample_config = \<lparr>name = ''Primary'', connectionString = ''postgresql://localhost/app'', description = None\<rparr>"

definition sample_server :: "session server" where
  "sample_server =
     \<lparr>databasePools = [''primary'' \<mapsto> \<lparr>in_use = 0, backend = sample_session\<rparr>],
      databaseConfigs = [''primary'' \<mapsto> sample_config],
      defaultDatabaseId = ''primary''\<rparr>"


definition server_with :: "session \<Rightarrow> session server" where
  "server_with s = sample_server\<lparr>databasePools := [''primary'' \<mapsto> \<lparr>in_use = 0, backend = s\<rparr>]\<rparr>"

definition unreachable_session :: session where
  "unreachable_session = sample_session\<lparr>reachable := False\<rparr>"

definition lost_session :: session where
  "lost_session = sample_session\<lparr>alive := False\<rparr>"

text \<open>A configuration whose default id is the name of a member of \<open>Object.prototype\<close>.\<close>

definition inherited_default_config :: DatabasesConfig where
  "inherited_default_config =
     \<lparr>databases = Some [(''primary'', sample_config)], defaultDatabase = ''toString''\<rparr>"

section \<open>Views of the state and of the report\<close>

text \<open>The number of clients checked out of each pool, by backend id.\<close>

definition in_use_counts :: "'s server \<Rightarrow> string \<Rightarrow> nat option" where
  "in_use_counts srv k = map_option in_use (databasePools srv k)"

text \<open>The rows of the table of the reference session that are durable, by backend id.\<close>

definition committed_rows :: "session server \<Rightarrow> string \<Rightarrow> nat option" where
  "committed_rows srv k = map_option (\<lambda>p. committed (backend p)) (databasePools srv k)"

text \<open>A line that looks like a section header of the health report.\<close>

definition is_header :: "string \<Rightarrow> bool" where
  "is_header l = prefix ''--- '' l"



section \<open>Properties of the registry\<close>

lemma or_default_Some: "b \<noteq> [] \<Longrightarrow> or_default (Some b) d = b"
  by (simp add: or_default_def)

lemma or_default_None: "or_default None d = d"
  by (simp add: or_default_def)

lemma or_default_empty: "or_default (Some []) d = d"
  by (simp add: or_default_def)

text \<open>
  C3, as the code has it. A non-empty id that is registered resolves to the pool and the
  description registered under it; an absent id, and the empty id as well, resolve to what
  is registered under the default id; a non-empty id that is not registered fails with
  the error that names it.
\<close>

theorem resolve_backend:
  "(b \<noteq> [] \<and> databasePools srv b = Some p \<longrightarrow> getDatabasePool srv (Some b) = Inr p)
   \<and> (b \<noteq> [] \<and> databaseConfigs srv b = Some c \<longrightarrow> getDatabaseConfig srv (Some b) = Inr c)
   \<and> (databasePools srv (defaultDatabaseId srv) = Some d \<longrightarrow>
         getDatabasePool srv None = Inr d \<and> getDatabasePool srv (Some []) = Inr d)
   \<and> (databaseConfigs srv (defaultDatabaseId srv) = Some dc \<longrightarrow>
         getDatabaseConfig srv None = Inr dc \<and> getDatabaseConfig srv (Some []) = Inr dc)
   \<and> (b \<noteq> [] \<and> databasePools srv b = None \<longrightarrow>
         getDatabasePool srv (Some b)
           = Inl (Error ''Error'' (''Database '' @ apostrophe @ b @ apostrophe @ '' not found'')))
   \<and> (b \<noteq> [] \<and> databaseConfigs srv b = None \<longrightarrow>
         getDatabaseConfig srv (Some b)
           = Inl (Error ''Error'' (''Database configuration '' @ apostrophe @ b @ apostrophe @ '' not found'')))"
  by (simp add: getDatabasePool_def getDatabaseConfig_def or_default_Some or_default_None or_default_empty)

theorem resolve_backend_witness:
  "getDatabasePool sample_server (Some ''primary'') = Inr \<lparr>in_use = 0, backend = sample_session\<rparr>
   \<and> getDatabaseConfig sample_server (Some ''primary'') = Inr sample_config
   \<and> getDatabasePool sample_server None = Inr \<lparr>in_use = 0, backend = sample_session\<rparr>
   \<and> getDatabaseConfig sample_server None = Inr sample_config
   \<and> getDatabasePool sample_server (Some ''staging'')
        = Inl (Error ''Error'' (''Database '' @ apostrophe @ ''staging'' @ apostrophe @ '' not found''))
   \<and> getDatabaseConfig sample_server (Some ''staging'')
        = Inl (Error ''Error'' (''Database configuration '' @ apostrophe @ ''staging'' @ apostrophe @ '' not found''))"
  using resolve_backend [of "''primary''" sample_server "\<lparr>in_use = 0, backend = sample_session\<rparr>" sample_config
          "\<lparr>in_use = 0, backend = sample_session\<rparr>" sample_config]
        resolve_backend [of "''staging''" sample_server "\<lparr>in_use = 0, backend = sample_session\<rparr>" sample_config
          "\<lparr>in_use = 0, backend = sample_session\<rparr>" sample_config]
  by (simp add: sample_server_def)

text \<open>
  C3 as stated fails at the empty id: it is not registered, and resolving it does not fail
  but yields the pool of the default backend.
\<close>

theorem empty_id_resolves_to_default:
  "databasePools sample_server [] = None
   \<and> getDatabasePool sample_server (Some []) = Inr \<lparr>in_use = 0, backend = sample_session\<rparr>"
  by (simp add: sample_server_def getDatabasePool_def or_default_def)

subsection \<open>Start-up\<close>

lemma register_all_default:
  "defaultDatabaseId (register_all fresh dbs srv) = defaultDatabaseId srv"
  by (induction dbs arbitrary: srv) auto

lemma register_all_configs:
  "distinct (map fst dbs) \<Longrightarrow>
     databaseConfigs (register_all fresh dbs srv) k
       = (case map_of dbs k of Some config \<Rightarrow> Some config | None \<Rightarrow> databaseConfigs srv k)"
proof (induction dbs arbitrary: srv)
  case Nil
  show ?case by simp
next
  case (Cons entry rest)
  obtain i config where entry: "entry = (i, config)" by (cases entry)
  from Cons.prems have fresh_key: "map_of rest i = None" and rest: "distinct (map fst rest)"
    by (auto simp: entry map_of_eq_None_iff)
  show ?case
    using fresh_key by (auto simp: entry Cons.IH [OF rest] split: option.splits)
qed

lemma in_use_counts_registered:
  "in_use_counts (srv\<lparr>databaseConfigs := configs, databasePools := (databasePools srv)(i \<mapsto> p)\<rparr>) k
     = (if k = i then Some (in_use p) else in_use_counts srv k)"
  by (simp add: in_use_counts_def)

lemma in_use_counts_empty: "in_use_counts (empty_server d) k = None"
  by (simp add: in_use_counts_def empty_server_def)

lemma register_all_pools:
  "in_use_counts (register_all fresh dbs srv) k
     = (if k \<in> fst ` set dbs then Some 0 else in_use_counts srv k)"
proof (induction dbs arbitrary: srv)
  case Nil
  show ?case by simp
next
  case (Cons entry rest)
  obtain i config where entry: "entry = (i, config)" by (cases entry)
  show ?case by (simp add: entry Cons.IH in_use_counts_registered)
qed

lemma property_truthy_own: "k \<in> fst ` set obj \<Longrightarrow> property_truthy obj k"
  by (auto simp: property_truthy_def map_of_eq_None_iff split: option.splits)

lemma property_truthy_missing:
  "k \<notin> fst ` set obj \<Longrightarrow> k \<notin> set object_prototype_keys \<Longrightarrow> \<not> property_truthy obj k"
  by (auto simp: property_truthy_def map_of_eq_None_iff split: option.splits)

text \<open>
  Start-up, for every configuration. It exits when no backend is configured. It exits when
  the default id is neither a key of the configured backends nor the name of a member of
  \<open>Object.prototype\<close>. When the default id is a key, it starts with that default, with the
  description of every configured backend registered under its key, and with one pool per
  key, none with a client checked out.
\<close>

theorem startup_validation:
  "(databases c1 = None \<or> databases c1 = Some [] \<longrightarrow>
      initializeDatabases fresh (ConfigMode c1) = Exit ''No databases configured in config file'')
   \<and> (databases c2 = Some dbs2 \<and> dbs2 \<noteq> [] \<and> defaultDatabase c2 \<notin> fst ` set dbs2
        \<and> defaultDatabase c2 \<notin> set object_prototype_keys \<longrightarrow>
      initializeDatabases fresh (ConfigMode c2)
        = Exit (''Default database '' @ apostrophe @ defaultDatabase c2 @ apostrophe
                 @ '' not found in configuration''))
   \<and> (databases c3 = Some dbs3 \<and> defaultDatabase c3 \<in> fst ` set dbs3 \<and> distinct (map fst dbs3) \<longrightarrow>
        (\<exists>srv. initializeDatabases fresh (ConfigMode c3) = Started srv
           \<and> defaultDatabaseId srv = defaultDatabase c3
           \<and> databaseConfigs srv = map_of dbs3
           \<and> in_use_counts srv = (\<lambda>k. if k \<in> fst ` set dbs3 then Some 0 else None)))"
proof (intro conjI impI)
  assume "databases c1 = None \<or> databases c1 = Some []"
  then show "initializeDatabases fresh (ConfigMode c1) = Exit ''No databases configured in config file''"
    by auto
next
  assume "databases c2 = Some dbs2 \<and> dbs2 \<noteq> [] \<and> defaultDatabase c2 \<notin> fst ` set dbs2
        \<and> defaultDatabase c2 \<notin> set object_prototype_keys"
  then show "initializeDatabases fresh (ConfigMode c2)
        = Exit (''Default database '' @ apostrophe @ defaultDatabase c2 @ apostrophe
                 @ '' not found in configuration'')"
    by (simp add: property_truthy_missing)
next
  assume a: "databases c3 = Some dbs3 \<and> defaultDatabase c3 \<in> fst ` set dbs3 \<and> distinct (map fst dbs3)"
  let ?srv = "register_all fresh dbs3 (empty_server (defaultDatabase c3))"
  from a have "dbs3 \<noteq> []" by auto
  with a have "initializeDatabases fresh (ConfigMode c3) = Started ?srv"
    by (simp add: property_truthy_own)
  moreover have "defaultDatabaseId ?srv = defaultDatabase c3"
    by (simp add: register_all_default empty_server_def)
  moreover have "databaseConfigs ?srv = map_of dbs3"
    using a by (auto simp: fun_eq_iff register_all_configs empty_server_def split: option.splits)
  moreover have "in_use_counts ?srv = (\<lambda>k. if k \<in> fst ` set dbs3 then Some 0 else None)"
    by (rule ext) (simp add: register_all_pools in_use_counts_empty)
  ultimately show "\<exists>srv. initializeDatabases fresh (ConfigMode c3) = Started srv
           \<and> defaultDatabaseId srv = defaultDatabase c3
           \<and> databaseConfigs srv = map_of dbs3
           \<and> in_use_counts srv = (\<lambda>k. if k \<in> fst ` set dbs3 then Some 0 else None)"
    by blast
qed

theorem startup_validation_witness:
  "initializeDatabases (\<lambda>c. sample_session) (ConfigMode \<lparr>databases = Some [], defaultDatabase = ''primary''\<rparr>)
     = Exit ''No databases configured in config file''
   \<and> initializeDatabases (\<lambda>c. sample_session)
        (ConfigMode \<lparr>databases = Some [(''primary'', sample_config)], defaultDatabase = ''staging''\<rparr>)
     = Exit (''Default database '' @ apostrophe
              @ defaultDatabase \<lparr>databases = Some [(''primary'', sample_config)], defaultDatabase = ''staging''\<rparr>
              @ apostrophe @ '' not found in configuration'')
   \<and> (\<exists>srv. initializeDatabases (\<lambda>c. sample_session)
          (ConfigMode \<lparr>databases = Some [(''primary'', sample_config)], defaultDatabase = ''primary''\<rparr>)
            = Started srv
          \<and> databaseConfigs srv = map_of [(''primary'', sample_config)])"
proof -
  have h1: "databases \<lparr>databases = Some [], defaultDatabase = ''primary''\<rparr> = None
      \<or> databases \<lparr>databases = Some [], defaultDatabase = ''primary''\<rparr> = Some []"
    by simp
  have h2: "databases \<lparr>databases = Some [(''primary'', sample_config)], defaultDatabase = ''staging''\<rparr>
        = Some [(''primary'', sample_config)]
      \<and> [(''primary'', sample_config)] \<noteq> []
      \<and> defaultDatabase \<lparr>databases = Some [(''primary'', sample_config)], defaultDatabase = ''staging''\<rparr>
          \<notin> fst ` set [(''primary'', sample_config)]
      \<and> defaultDatabase \<lparr>databases = Some [(''primary'', sample_config)], defaultDatabase = ''staging''\<rparr>
          \<notin> set object_prototype_keys"
    by (simp add: object_prototype_keys_def)
  have h3: "databases \<lparr>databases = Some [(''primary'', sample_config)], defaultDatabase = ''primary''\<rparr>
        = Some [(''primary'', sample_config)]
      \<and> defaultDatabase \<lparr>databases = Some [(''primary'', sample_config)], defaultDatabase = ''primary''\<rparr>
          \<in> fst ` set [(''primary'', sample_config)]
      \<and> distinct (map fst [(''primary'', sample_config)])"
    by simp
  show ?thesis
    using startup_validation [where fresh = "\<lambda>c. sample_session"
        and ?c1.0 = "\<lparr>databases = Some [], defaultDatabase = ''primary''\<rparr>"
        and ?c2.0 = "\<lparr>databases = Some [(''primary'', sample_config)], defaultDatabase = ''staging''\<rparr>"
        and ?dbs2.0 = "[(''primary'', sample_config)]"
        and ?c3.0 = "\<lparr>databases = Some [(''primary'', sample_config)], defaultDatabase = ''primary''\<rparr>"
        and ?dbs3.0 = "[(''primary'', sample_config)]"]
      h1 h2 h3
    by blast
qed

text \<open>
  C9 at a configuration whose default id is \<open>toString\<close>, which is no key of the configured
  backends: start-up does not exit. The registry is built with a default id that is not
  registered, and resolving an absent id fails from then on.
\<close>

theorem startup_accepts_inherited_default:
  "\<exists>srv. initializeDatabases (\<lambda>c. sample_session) (ConfigMode inherited_default_config) = Started srv
     \<and> defaultDatabaseId srv = ''toString''
     \<and> databasePools srv ''toString'' = None
     \<and> databaseConfigs srv ''toString'' = None
     \<and> getDatabasePool srv None
          = Inl (Error ''Error'' (''Database '' @ apostrophe @ ''toString'' @ apostrophe @ '' not found''))"
  by (simp add: inherited_default_config_def property_truthy_def object_prototype_keys_def
        empty_server_def getDatabasePool_def or_default_def)

theorem startup_accepts_inherited_default_witness:
  "map_of [(''primary'', sample_config)] ''toString'' = None
   \<and> (\<exists>srv. initializeDatabases (\<lambda>c. sample_session) (ConfigMode inherited_default_config) = Started srv
          \<and> databasePools srv ''toString'' = None)"
  using startup_accepts_inherited_default by auto

section \<open>Scoped acquisition\<close>

lemma pool_connect_in_use:
  "pool_connect E pool = (Inl e, p1) \<Longrightarrow> in_use p1 = in_use pool"
  "pool_connect E pool = (Inr u, p1) \<Longrightarrow> in_use p1 = Suc (in_use pool)"
  by (auto simp: pool_connect_def split: prod.splits option.splits)

lemma with_client_in_use:
  "with_client E body pool = (r, pool') \<Longrightarrow> in_use pool' = in_use pool"
  unfolding with_client_def
  by (cases "pool_connect E pool" rule: prod.exhaust; cases "fst (pool_connect E pool)")
     (auto simp: client_release_def dest: pool_connect_in_use split: prod.splits)

lemma with_pool_in_use:
  assumes work: "\<And>pool r pool'. work pool = (r, pool') \<Longrightarrow> in_use pool' = in_use pool"
  shows "in_use_counts (snd (with_pool srv databaseId work)) = in_use_counts srv"
proof (cases "getDatabasePool srv databaseId")
  case (Inl e)
  then show ?thesis by (simp add: with_pool_def)
next
  case (Inr pool)
  obtain r pool' where w: "work pool = (r, pool')" by (cases "work pool")
  from Inr have reg: "databasePools srv (or_default databaseId (defaultDatabaseId srv)) = Some pool"
    by (simp add: getDatabasePool_def Let_def split: option.splits)
  have same: "in_use pool' = in_use pool" by (rule work [OF w])
  show ?thesis
  proof (rule ext)
    fix k
    show "in_use_counts (snd (with_pool srv databaseId work)) k = in_use_counts srv k"
      using reg same by (simp add: with_pool_def Inr w in_use_counts_def)
  qed
qed

lemma scoped_in_use:
  "in_use_counts (snd (with_pool srv databaseId (with_client E body))) = in_use_counts srv"
  by (rule with_pool_in_use) (rule with_client_in_use)


lemma calculateIndexCacheHitRate_in_use:
  "in_use_counts (snd (calculateIndexCacheHitRate E H threshold databaseId srv)) = in_use_counts srv"
  unfolding calculateIndexCacheHitRate_def by (rule scoped_in_use)

lemma calculateTableCacheHitRate_in_use:
  "in_use_counts (snd (calculateTableCacheHitRate E H threshold databaseId srv)) = in_use_counts srv"
  unfolding calculateTableCacheHitRate_def by (rule scoped_in_use)

lemma buffer_pair_in_use:
  "in_use_counts (snd (case calculateIndexCacheHitRate E H threshold databaseId srv of
       (Inl e, srv1) \<Rightarrow> (Inl e, srv1)
     | (Inr indexHealth, srv1) \<Rightarrow>
         (case calculateTableCacheHitRate E H threshold databaseId srv1 of
            (Inl e, srv2) \<Rightarrow> (Inl e, srv2)
          | (Inr tableHealth, srv2) \<Rightarrow> (Inr (f indexHealth tableHealth), srv2)))) = in_use_counts srv"
proof -
  obtain r1 srv1 where c1: "calculateIndexCacheHitRate E H threshold databaseId srv = (r1, srv1)"
    by (cases "calculateIndexCacheHitRate E H threshold databaseId srv")
  have s1: "in_use_counts srv1 = in_use_counts srv"
    using calculateIndexCacheHitRate_in_use [of E H threshold databaseId srv] by (simp add: c1)
  show ?thesis
  proof (cases r1)
    case (Inl e)
    then show ?thesis by (simp add: c1 s1)
  next
    case (Inr indexHealth)
    obtain r2 srv2 where c2: "calculateTableCacheHitRate E H threshold databaseId srv1 = (r2, srv2)"
      by (cases "calculateTableCacheHitRate E H threshold databaseId srv1")
    have s2: "in_use_counts srv2 = in_use_counts srv1"
      using calculateTableCacheHitRate_in_use [of E H threshold databaseId srv1] by (simp add: c2)
    show ?thesis by (cases r2) (simp_all add: c1 c2 Inr s1 s2)
  qed
qed

lemma run_probe_in_use:
  "in_use_counts (snd (run_probe E H databaseId healthType srv)) = in_use_counts srv"
proof -
  have probes:
    "in_use_counts (snd (checkIndexHealth E databaseId srv)) = in_use_counts srv"
    "in_use_counts (snd (checkConnectionHealth E H databaseId srv)) = in_use_counts srv"
    "in_use_counts (snd (checkVacuumHealth E H databaseId srv)) = in_use_counts srv"
    "in_use_counts (snd (checkSequenceHealth E databaseId srv)) = in_use_counts srv"
    "in_use_counts (snd (checkReplicationHealth E databaseId srv)) = in_use_counts srv"
    "in_use_counts (snd (checkConstraintHealth E databaseId srv)) = in_use_counts srv"
    unfolding checkIndexHealth_def checkConnectionHealth_def checkVacuumHealth_def
      checkSequenceHealth_def checkReplicationHealth_def checkConstraintHealth_def
    by (rule scoped_in_use)+
  show ?thesis
    unfolding run_probe_def Let_def
    by (simp only: probes buffer_pair_in_use snd_conv if_split [where P = "\<lambda>x. in_use_counts (snd x) = in_use_counts srv"] simp_thms if_True if_False split: if_split)
qed

lemma health_section_in_use:
  "in_use_counts (snd (health_section E H databaseId healthType srv)) = in_use_counts srv"
proof -
  obtain r srv1 where probe: "run_probe E H databaseId healthType srv = (r, srv1)"
    by (cases "run_probe E H databaseId healthType srv")
  have "in_use_counts srv1 = in_use_counts srv"
    using run_probe_in_use [of E H databaseId healthType srv] by (simp add: probe)
  then show ?thesis by (cases r) (simp_all add: health_section_def probe)
qed

lemma health_loop_in_use:
  "in_use_counts (snd (health_loop E H databaseId healthTypes (allResults, srv))) = in_use_counts srv"
proof (induction healthTypes arbitrary: allResults srv)
  case Nil
  show ?case by simp
next
  case (Cons healthType rest)
  obtain pushed srv1 where sec: "health_section E H databaseId healthType srv = (pushed, srv1)"
    by (cases "health_section E H databaseId healthType srv")
  have "in_use_counts srv1 = in_use_counts srv"
    using health_section_in_use [of E H databaseId healthType srv] by (simp add: sec)
  with Cons.IH [of "allResults @ pushed" srv1] show ?case by (simp add: sec)
qed

lemma performDatabaseHealthCheck_in_use:
  "in_use_counts (snd (performDatabaseHealthCheck E H healthTypes databaseId srv)) = in_use_counts srv"
proof (cases "getDatabaseConfig srv databaseId")
  case (Inl e)
  then show ?thesis by (simp add: performDatabaseHealthCheck_def health_report_lines_def)
next
  case (Inr dbConfig)
  obtain allResults srv1 where loop:
    "health_loop E H databaseId (normalizedTypes healthTypes)
       (report_head H dbConfig (or_default databaseId (defaultDatabaseId srv)), srv) = (allResults, srv1)"
    by (cases "health_loop E H databaseId (normalizedTypes healthTypes)
       (report_head H dbConfig (or_default databaseId (defaultDatabaseId srv)), srv)")
  have "in_use_counts srv1 = in_use_counts srv"
    using health_loop_in_use [of E H databaseId "normalizedTypes healthTypes"
            "report_head H dbConfig (or_default databaseId (defaultDatabaseId srv))" srv]
    by (simp add: loop)
  then show ?thesis
    by (simp add: performDatabaseHealthCheck_def health_report_lines_def Inr loop)
qed

lemma database_health_check_in_use:
  "in_use_counts (snd (database_health_check E H health_types database srv)) = in_use_counts srv"
proof -
  let ?types = "case health_types of None \<Rightarrow> [''all''] | Some ts \<Rightarrow> ts"
  obtain r srv1 where run: "performDatabaseHealthCheck E H ?types database srv = (r, srv1)"
    by (cases "performDatabaseHealthCheck E H ?types database srv")
  have "in_use_counts srv1 = in_use_counts srv"
    using performDatabaseHealthCheck_in_use [of E H ?types database srv] by (simp add: run)
  then show ?thesis by (cases r) (simp_all add: database_health_check_def run)
qed

lemma buffer_health_check_in_use:
  "in_use_counts (snd (buffer_health_check E H threshold_arg database srv)) = in_use_counts srv"
  unfolding buffer_health_check_def Let_def by (rule buffer_pair_in_use)

text \<open>
  Every tool that takes its client through \<open>try { ... } finally { client.release(); }\<close>
  leaves the number of clients checked out of every pool as it found it, whatever the
  engine answers: the five statement tools, every health probe, and the two health tools.
\<close>

theorem scoped_tools_restore_in_use:
  "in_use_counts (snd (create_table E tableName columns database srv)) = in_use_counts srv
   \<and> in_use_counts (snd (insert_entry E H tableName vals database srv)) = in_use_counts srv
   \<and> in_use_counts (snd (update_entry E H tableName vals conditions database srv)) = in_use_counts srv
   \<and> in_use_counts (snd (delete_entry E H tableName conditions database srv)) = in_use_counts srv
   \<and> in_use_counts (snd (delete_table E tableName database srv)) = in_use_counts srv
   \<and> in_use_counts (snd (run_probe E H database healthType srv)) = in_use_counts srv
   \<and> in_use_counts (snd (buffer_health_check E H threshold_arg database srv)) = in_use_counts srv
   \<and> in_use_counts (snd (database_health_check E H health_types database srv)) = in_use_counts srv"
proof -
  have "in_use_counts (snd (create_table E tableName columns database srv)) = in_use_counts srv"
    unfolding create_table_def by (rule scoped_in_use)
  moreover have "in_use_counts (snd (insert_entry E H tableName vals database srv)) = in_use_counts srv"
    unfolding insert_entry_def by (rule scoped_in_use)
  moreover have "in_use_counts (snd (update_entry E H tableName vals conditions database srv)) = in_use_counts srv"
    unfolding update_entry_def by (rule scoped_in_use)
  moreover have "in_use_counts (snd (delete_entry E H tableName conditions database srv)) = in_use_counts srv"
    unfolding delete_entry_def by (rule scoped_in_use)
  moreover have "in_use_counts (snd (delete_table E tableName database srv)) = in_use_counts srv"
    unfolding delete_table_def by (rule scoped_in_use)
  ultimately show ?thesis
    by (simp only: run_probe_in_use buffer_health_check_in_use database_health_check_in_use simp_thms)
qed

lemma query_on_connect_fails:
  "connect E (backend pool) = (Some e, s) \<Longrightarrow>
     query_on E H sql pool = (Inl e, pool\<lparr>backend := s\<rparr>)"
  by (simp add: query_on_def pool_connect_def)

lemma query_on_rollback:
  assumes "connect E (backend pool) = (None, s1)"
    and "query_transaction E H sql s1 = (r, s2)"
  shows "query E ''ROLLBACK'' [] s2 = (Inr b, s3) \<Longrightarrow>
           query_on E H sql pool = (r, \<lparr>in_use = in_use pool, backend = s3\<rparr>)"
    and "query E ''ROLLBACK'' [] s2 = (Inl e, s3) \<Longrightarrow>
           query_on E H sql pool = (Inl e, \<lparr>in_use = Suc (in_use pool), backend = s3\<rparr>)"
  using assms by (simp_all add: query_on_def pool_connect_def client_release_def)

lemma with_pool_found:
  assumes "getDatabasePool srv databaseId = Inr pool" and "work pool = (r, pool')"
  shows "fst (with_pool srv databaseId work) = r"
    and "in_use_counts (snd (with_pool srv databaseId work)) (or_default databaseId (defaultDatabaseId srv))
           = Some (in_use pool')"
    and "in_use pool' = in_use pool \<Longrightarrow>
           in_use_counts (snd (with_pool srv databaseId work)) = in_use_counts srv"
proof -
  from assms(1) have reg: "databasePools srv (or_default databaseId (defaultDatabaseId srv)) = Some pool"
    by (simp add: getDatabasePool_def Let_def split: option.splits)
  show "fst (with_pool srv databaseId work) = r"
    by (simp add: with_pool_def assms)
  show "in_use_counts (snd (with_pool srv databaseId work)) (or_default databaseId (defaultDatabaseId srv))
           = Some (in_use pool')"
    by (simp add: with_pool_def assms in_use_counts_def)
  show "in_use_counts (snd (with_pool srv databaseId work)) = in_use_counts srv"
    if "in_use pool' = in_use pool"
  proof (rule ext)
    fix k
    show "in_use_counts (snd (with_pool srv databaseId work)) k = in_use_counts srv k"
      using reg that by (simp add: with_pool_def assms in_use_counts_def)
  qed
qed

text \<open>
  The query tool, for every engine. It hands nothing out when the pool is unknown or the
  connection fails. With a client in hand it always sends \<open>ROLLBACK\<close> after the
  transaction; when the rollback returns, the result of the transaction is returned and the
  client is released; when the rollback throws, its error is the result and the client
  stays checked out.
\<close>

theorem query_tool_release:
  "(getDatabasePool srv0 database = Inl e0 \<longrightarrow> query_tool E H sql database srv0 = (Inl e0, srv0))
   \<and> (getDatabasePool srv1 database = Inr pool1 \<and> connect E (backend pool1) = (Some e1, c1) \<longrightarrow>
        fst (query_tool E H sql database srv1) = Inl e1
        \<and> in_use_counts (snd (query_tool E H sql database srv1)) = in_use_counts srv1)
   \<and> (getDatabasePool srv2 database = Inr pool2 \<and> connect E (backend pool2) = (None, c2)
        \<and> query_transaction E H sql c2 = (r2, c2') \<and> query E ''ROLLBACK'' [] c2' = (Inr b2, c2'') \<longrightarrow>
        fst (query_tool E H sql database srv2) = r2
        \<and> in_use_counts (snd (query_tool E H sql database srv2)) = in_use_counts srv2)
   \<and> (getDatabasePool srv3 database = Inr pool3 \<and> connect E (backend pool3) = (None, c3)
        \<and> query_transaction E H sql c3 = (r3, c3') \<and> query E ''ROLLBACK'' [] c3' = (Inl e3, c3'') \<longrightarrow>
        fst (query_tool E H sql database srv3) = Inl e3
        \<and> in_use_counts (snd (query_tool E H sql database srv3))
             (or_default database (defaultDatabaseId srv3)) = Some (Suc (in_use pool3)))"
proof (intro conjI impI)
  assume "getDatabasePool srv0 database = Inl e0"
  then show "query_tool E H sql database srv0 = (Inl e0, srv0)"
    by (simp add: query_tool_def with_pool_def)
next
  assume a: "getDatabasePool srv1 database = Inr pool1 \<and> connect E (backend pool1) = (Some e1, c1)"
  then have work: "query_on E H sql pool1 = (Inl e1, pool1\<lparr>backend := c1\<rparr>)"
    by (simp add: query_on_connect_fails)
  from a have found: "getDatabasePool srv1 database = Inr pool1" by simp
  show "fst (query_tool E H sql database srv1) = Inl e1"
    unfolding query_tool_def by (rule with_pool_found(1) [where work = "query_on E H sql", OF found work])
  show "in_use_counts (snd (query_tool E H sql database srv1)) = in_use_counts srv1"
    unfolding query_tool_def by (rule with_pool_found(3) [where work = "query_on E H sql", OF found work]) simp
next
  assume a: "getDatabasePool srv2 database = Inr pool2 \<and> connect E (backend pool2) = (None, c2)
        \<and> query_transaction E H sql c2 = (r2, c2') \<and> query E ''ROLLBACK'' [] c2' = (Inr b2, c2'')"
  then have work: "query_on E H sql pool2 = (r2, \<lparr>in_use = in_use pool2, backend = c2''\<rparr>)"
    by (simp add: query_on_rollback(1))
  from a have found: "getDatabasePool srv2 database = Inr pool2" by simp
  show "fst (query_tool E H sql database srv2) = r2"
    unfolding query_tool_def by (rule with_pool_found(1) [where work = "query_on E H sql", OF found work])
  show "in_use_counts (snd (query_tool E H sql database srv2)) = in_use_counts srv2"
    unfolding query_tool_def by (rule with_pool_found(3) [where work = "query_on E H sql", OF found work]) simp
next
  assume a: "getDatabasePool srv3 database = Inr pool3 \<and> connect E (backend pool3) = (None, c3)
        \<and> query_transaction E H sql c3 = (r3, c3') \<and> query E ''ROLLBACK'' [] c3' = (Inl e3, c3'')"
  then have work: "query_on E H sql pool3 = (Inl e3, \<lparr>in_use = Suc (in_use pool3), backend = c3''\<rparr>)"
    by (simp add: query_on_rollback(2))
  from a have found: "getDatabasePool srv3 database = Inr pool3" by simp
  show "fst (query_tool E H sql database srv3) = Inl e3"
    unfolding query_tool_def by (rule with_pool_found(1) [where work = "query_on E H sql", OF found work])
  show "in_use_counts (snd (query_tool E H sql database srv3))
             (or_default database (defaultDatabaseId srv3)) = Some (Suc (in_use pool3))"
    unfolding query_tool_def using with_pool_found(2) [where work = "query_on E H sql", OF found work] by simp
qed

theorem query_tool_release_witness:
  "query_tool reference_engine sample_host ''SELECT count(*) FROM t'' (Some ''staging'') sample_server
      = (Inl (Error ''Error'' (''Database '' @ apostrophe @ ''staging'' @ apostrophe @ '' not found'')),
         sample_server)
   \<and> in_use_counts (snd (query_tool reference_engine sample_host ''SELECT count(*) FROM t'' None
          (server_with unreachable_session))) = in_use_counts (server_with unreachable_session)
   \<and> fst (query_tool reference_engine sample_host ''SELECT count(*) FROM t'' None sample_server)
       = Inr \<lparr>content = stringify sample_host (Arr [[(''count'', ''3'')]]), isError = False\<rparr>
   \<and> in_use_counts (snd (query_tool reference_engine sample_host ''SELECT count(*) FROM t'' None
          sample_server)) = in_use_counts sample_server
   \<and> in_use_counts (snd (query_tool reference_engine sample_host ''SELECT count(*) FROM t'' None
          (server_with lost_session))) (or_default None (defaultDatabaseId (server_with lost_session)))
       = Some (Suc (in_use \<lparr>in_use = 0, backend = lost_session\<rparr>))"
proof -
  have h0: "getDatabasePool sample_server (Some ''staging'')
      = Inl (Error ''Error'' (''Database '' @ apostrophe @ ''staging'' @ apostrophe @ '' not found''))"
    by (simp add: getDatabasePool_def or_default_def sample_server_def)
  have h1: "getDatabasePool (server_with unreachable_session) None
        = Inr \<lparr>in_use = 0, backend = unreachable_session\<rparr>
      \<and> connect reference_engine (backend \<lparr>in_use = 0, backend = unreachable_session\<rparr>)
        = (Some (Error ''Error'' ''connect ECONNREFUSED''), unreachable_session)"
    by code_simp
  have h2: "getDatabasePool sample_server None = Inr \<lparr>in_use = 0, backend = sample_session\<rparr>
      \<and> connect reference_engine (backend \<lparr>in_use = 0, backend = sample_session\<rparr>) = (None, sample_session)
      \<and> query_transaction reference_engine sample_host ''SELECT count(*) FROM t'' sample_session
          = (Inr \<lparr>content = stringify sample_host (Arr [[(''count'', ''3'')]]), isError = False\<rparr>,
             sample_session\<lparr>tx := ReadOnlyTx\<rparr>)
      \<and> query reference_engine ''ROLLBACK'' [] (sample_session\<lparr>tx := ReadOnlyTx\<rparr>) = (Inr [], sample_session)"
    by code_simp
  have h3: "getDatabasePool (server_with lost_session) None = Inr \<lparr>in_use = 0, backend = lost_session\<rparr>
      \<and> connect reference_engine (backend \<lparr>in_use = 0, backend = lost_session\<rparr>) = (None, lost_session)
      \<and> query_transaction reference_engine sample_host ''SELECT count(*) FROM t'' lost_session
          = (Inl connection_lost, lost_session)
      \<and> query reference_engine ''ROLLBACK'' [] lost_session = (Inl connection_lost, lost_session)"
    by code_simp
  have a0: "query_tool reference_engine sample_host ''SELECT count(*) FROM t'' (Some ''staging'') sample_server
      = (Inl (Error ''Error'' (''Database '' @ apostrophe @ ''staging'' @ apostrophe @ '' not found'')),
         sample_server)"
    using query_tool_release [where database = "Some ''staging''" and ?srv0.0 = sample_server
        and E = reference_engine and H = sample_host and sql = "''SELECT count(*) FROM t''"] h0
    by blast
  have rest: "in_use_counts (snd (query_tool reference_engine sample_host ''SELECT count(*) FROM t'' None
          (server_with unreachable_session))) = in_use_counts (server_with unreachable_session)
   \<and> fst (query_tool reference_engine sample_host ''SELECT count(*) FROM t'' None sample_server)
       = Inr \<lparr>content = stringify sample_host (Arr [[(''count'', ''3'')]]), isError = False\<rparr>
   \<and> in_use_counts (snd (query_tool reference_engine sample_host ''SELECT count(*) FROM t'' None
          sample_server)) = in_use_counts sample_server
   \<and> in_use_counts (snd (query_tool reference_engine sample_host ''SELECT count(*) FROM t'' None
          (server_with lost_session))) (or_default None (defaultDatabaseId (server_with lost_session)))
       = Some (Suc (in_use \<lparr>in_use = 0, backend = lost_session\<rparr>))"
    using query_tool_release [where database = None and E = reference_engine and H = sample_host
        and sql = "''SELECT count(*) FROM t''"
        and ?srv1.0 = "server_with unreachable_session"
        and ?pool1.0 = "\<lparr>in_use = 0, backend = unreachable_session\<rparr>"
        and ?e1.0 = "Error ''Error'' ''connect ECONNREFUSED''" and ?c1.0 = unreachable_session
        and ?srv2.0 = sample_server and ?pool2.0 = "\<lparr>in_use = 0, backend = sample_session\<rparr>"
        and ?c2.0 = sample_session
        and ?r2.0 = "Inr \<lparr>content = stringify sample_host (Arr [[(''count'', ''3'')]]), isError = False\<rparr>"
        and c2' = "sample_session\<lparr>tx := ReadOnlyTx\<rparr>" and ?b2.0 = "[]" and c2'' = sample_session
        and ?srv3.0 = "server_with lost_session" and ?pool3.0 = "\<lparr>in_use = 0, backend = lost_session\<rparr>"
        and ?c3.0 = lost_session and ?r3.0 = "Inl connection_lost" and c3' = lost_session
        and ?e3.0 = connection_lost and c3'' = lost_session]
      h1 h2 h3
    by blast
  from a0 rest show ?thesis by blast
qed

text \<open>
  C1 at the failing input: a query that ends the session it runs on. The statement fails,
  the \<open>ROLLBACK\<close> of the \<open>finally\<close> block fails as well, \<open>client.release()\<close> is not reached,
  and the pool is left with one client checked out that nobody holds.
\<close>

theorem query_tool_leaks_client:
  "in_use_counts sample_server ''primary'' = Some 0
   \<and> fst (query_tool reference_engine sample_host
            ''SELECT pg_terminate_backend(pg_backend_pid())'' None sample_server)
        = Inl connection_lost
   \<and> in_use_counts (snd (query_tool reference_engine sample_host
            ''SELECT pg_terminate_backend(pg_backend_pid())'' None sample_server)) ''primary''
        = Some 1"
  by code_simp

section \<open>Properties of the health report\<close>

text \<open>
  C5, as the code has it: the sentinel \<open>all\<close>, anywhere in the requested list, stands for
  the seven probes in the order index, connection, vacuum, sequence, replication, buffer,
  constraint.
\<close>

theorem all_expands_in_code_order:
  "''all'' \<in> set healthTypes \<Longrightarrow>
     normalizedTypes healthTypes
       = [''index'', ''connection'', ''vacuum'', ''sequence'', ''replication'', ''buffer'', ''constraint'']"
  by (simp add: normalizedTypes_def all_health_types_def)

theorem all_expands_in_code_order_witness:
  "normalizedTypes [''vacuum'', ''all'']
       = [''index'', ''connection'', ''vacuum'', ''sequence'', ''replication'', ''buffer'', ''constraint'']"
  using all_expands_in_code_order [of "[''vacuum'', ''all'']"] by simp

text \<open>C5 as stated fails: the expansion of \<open>all\<close> does not start with the buffer probe.\<close>

theorem all_does_not_start_with_buffer:
  "normalizedTypes [''all'']
     \<noteq> [''buffer'', ''index'', ''connection'', ''vacuum'', ''sequence'', ''replication'', ''constraint'']"
  by (simp add: normalizedTypes_def all_health_types_def)

lemma not_header_simps [simp]:
  "\<not> is_header []"
  "c \<noteq> CHR ''-'' \<Longrightarrow> \<not> is_header (c # l)"
  by (simp_all add: is_header_def)

lemma marks_not_header [simp]:
  "\<not> is_header (check_mark @ l)" "\<not> is_header (warning_mark @ l)" "\<not> is_header (critical_mark @ l)"
  by (simp_all add: check_mark_def warning_mark_def critical_mark_def)


























lemma headers_are_headers: "is_header (section_header healthType)"
  by (simp add: is_header_def section_header_def)

lemma filter_no_header: "list_all (\<lambda>l. \<not> is_header l) body \<Longrightarrow> filter is_header body = []"
  by (induction body) simp_all















section \<open>Properties of the vacuum and buffer probes\<close>



















section \<open>Properties of the statements the tools send\<close>

text \<open>
  C2 at the failing input. A single \<open>INSERT\<close> is refused by the read-only transaction and
  nothing persists. The text \<open>COMMIT; INSERT INTO t VALUES (1)\<close> is sent by the tool as one
  query: its first statement ends the read-only transaction, its second commits by itself,
  the \<open>ROLLBACK\<close> that follows finds nothing to undo, and the table has one more row
  after the call.
\<close>

theorem query_tool_commit_escapes_read_only:
  "committed_rows sample_server ''primary'' = Some 3
   \<and> fst (query_tool reference_engine sample_host ''INSERT INTO t VALUES (1)'' None sample_server)
        = Inl (read_only_refusal ''INSERT'')
   \<and> committed_rows (snd (query_tool reference_engine sample_host
            ''INSERT INTO t VALUES (1)'' None sample_server)) ''primary'' = Some 3
   \<and> fst (query_tool reference_engine sample_host ''COMMIT; INSERT INTO t VALUES (1)'' None sample_server)
        = Inr \<lparr>content = stringify sample_host (Arr []), isError = False\<rparr>
   \<and> committed_rows (snd (query_tool reference_engine sample_host
            ''COMMIT; INSERT INTO t VALUES (1)'' None sample_server)) ''primary'' = Some 4"
  by code_simp






end
